theory Spec2Isabelle
  imports Main "HOL-Library.AList" "HOL-Library.Sublist"
begin

section \<open>Data model\<close>

text \<open>
  Modelled from the spec: the entity classes \<open>Category\<close> and \<open>Question\<close> live in
  \<open>models.py\<close>, which is not among the sources; section 3 of the specification gives
  their columns. Python integers are unbounded, hence \<open>int\<close>.
\<close>

record category =
  cat_id :: int
  cat_type :: string

record question =
  q_id :: int
  q_question :: string
  q_answer :: string
  q_category :: int
  q_difficulty :: int

text \<open>
  Modelled from the spec: \<open>Question.format\<close> (\<open>models.py\<close>) serialises a question to the
  fixed-shape record \<open>{id, question, answer, category, difficulty}\<close> (section 4.8).
\<close>

record formatted_question =
  j_id :: int
  j_question :: string
  j_answer :: string
  j_category :: int
  j_difficulty :: int

definition Question_format :: "question \<Rightarrow> formatted_question" where
  "Question_format q =
     \<lparr>j_id = q_id q, j_question = q_question q, j_answer = q_answer q,
      j_category = q_category q, j_difficulty = q_difficulty q\<rparr>"

text \<open>
  The data store: the rows of the two tables in storage order and the sequence that
  feeds the auto-assigned question ids. A database session holds the committed store and
  the working copy that queries read and uncommitted writes change.
\<close>

record store =
  questions :: "question list"
  categories :: "category list"
  questions_id_seq :: int

record session =
  committed :: store
  working :: store

definition session_begin :: "store \<Rightarrow> session" where
  "session_begin db = \<lparr>committed = db, working = db\<rparr>"

definition session_commit :: "session \<Rightarrow> session" where
  "session_commit s = s\<lparr>committed := working s\<rparr>"

definition session_rollback :: "session \<Rightarrow> session" where
  "session_rollback s = s\<lparr>working := committed s\<rparr>"

definition session_close :: "session \<Rightarrow> session" where
  "session_close s = s"

text \<open>
  Modelled from the spec: \<open>Question.insert\<close> and \<open>Question.delete\<close> (\<open>models.py\<close>).
  Insertion adds a row with an auto-assigned id and commits (section 4.3); ids are never
  reused (section 3), so the id comes from a sequence that only advances. Deletion removes
  the row with the question's primary key and commits (section 4.4).
\<close>

definition Question_insert ::
  "string \<Rightarrow> string \<Rightarrow> int \<Rightarrow> int \<Rightarrow> session \<Rightarrow> session" where
  "Question_insert qu an di ca s =
     (let w = working s;
          row = \<lparr>q_id = questions_id_seq w, q_question = qu, q_answer = an,
                 q_category = ca, q_difficulty = di\<rparr>
      in session_commit
           (s\<lparr>working := w\<lparr>questions := questions w @ [row],
                             questions_id_seq := questions_id_seq w + 1\<rparr>\<rparr>))"

definition Question_delete :: "question \<Rightarrow> session \<Rightarrow> session" where
  "Question_delete q s =
     (let w = working s
      in session_commit
           (s\<lparr>working := w\<lparr>questions := filter (\<lambda>r. q_id r \<noteq> q_id q) (questions w)\<rparr>\<rparr>))"

text \<open>\<open>Query.get\<close>: the row with the given primary key, or \<open>None\<close>.\<close>

definition Question_query_get :: "session \<Rightarrow> int \<Rightarrow> question option" where
  "Question_query_get s i = find (\<lambda>q. q_id q = i) (questions (working s))"

definition Category_query_get :: "session \<Rightarrow> int \<Rightarrow> category option" where
  "Category_query_get s i = find (\<lambda>c. cat_id c = i) (categories (working s))"

section \<open>Exceptions and responses\<close>

text \<open>
  \<open>abort(code)\<close> raises an \<open>HTTPException\<close>; a failed key lookup raises \<open>KeyError\<close>.
  A handler returns either the exception it raised or the JSON object it built.
\<close>

datatype exn = HTTPException nat | KeyError string

datatype payload =
    Categories_body nat "(int \<times> string) list"
  | Questions_body nat "formatted_question list" "(int \<times> string) list"
  | Deleted_body int
  | Created_body
  | Search_body nat "formatted_question list"
  | By_category_body nat "formatted_question list" string
  | Quiz_body "formatted_question option"
  | Error_body nat string
  | Default_error_page nat

fun success :: "payload \<Rightarrow> bool" where
  "success (Error_body c m) = False"
| "success (Default_error_page c) = False"
| "success b = True"

record response =
  status :: nat
  body :: payload

definition abort :: "nat \<Rightarrow> exn + 'a" where
  "abort code = Inl (HTTPException code)"

definition jsonify :: "payload \<Rightarrow> response" where
  "jsonify b = \<lparr>status = 200, body = b\<rparr>"

definition not_found :: response where
  "not_found = \<lparr>status = 404, body = Error_body 404 ''Resource Not Found''\<rparr>"

definition bad_request :: response where
  "bad_request = \<lparr>status = 400, body = Error_body 400 ''Bad Request''\<rparr>"

definition unprocessable :: response where
  "unprocessable = \<lparr>status = 422, body = Error_body 422 ''Unprocessable''\<rparr>"

definition internal_server_error :: response where
  "internal_server_error = \<lparr>status = 500, body = Error_body 500 ''Internal Server Error''\<rparr>"

text \<open>
  The framework sends an \<open>HTTPException\<close> to the handler registered for its code and
  renders its own page for a code without one; any other exception that leaves a view
  becomes a 500.
\<close>

definition errorhandler :: "exn \<Rightarrow> response" where
  "errorhandler e =
     (case e of
        HTTPException c \<Rightarrow>
          (if c = 404 then not_found
           else if c = 400 then bad_request
           else if c = 422 then unprocessable
           else if c = 500 then internal_server_error
           else \<lparr>status = c, body = Default_error_page c\<rparr>)
      | KeyError k \<Rightarrow> internal_server_error)"

section \<open>Helpers of the application module\<close>

definition QUESTIONS_PER_PAGE :: nat where
  "QUESTIONS_PER_PAGE = 10"

text \<open>
  A Python dict keeps one value per key, the last one stored, in the order of first
  insertion: an association list updated key by key.
\<close>

definition categories_to_dict :: "category list \<Rightarrow> (int \<times> string) list" where
  "categories_to_dict cs = fold (\<lambda>c d. AList.update (cat_id c) (cat_type c) d) cs []"

type_synonym view = "session \<Rightarrow> (exn + payload) \<times> session"

text \<open>
  The decorator: an \<open>HTTPException\<close> is raised again, any other exception becomes
  \<open>abort(500)\<close>, and in every case the session is rolled back and closed.
\<close>

definition handle_exceptions :: "view \<Rightarrow> view" where
  "handle_exceptions f s =
     (case f s of (r, s') \<Rightarrow>
        ((case r of
            Inr v \<Rightarrow> Inr v
          | Inl (HTTPException c) \<Rightarrow> Inl (HTTPException c)
          | Inl (KeyError k) \<Rightarrow> abort 500),
         session_close (session_rollback s')))"

section \<open>Pagination\<close>

text \<open>
  \<open>Query.paginate\<close> of the Flask-SQLAlchemy library, for a positive \<open>per_page\<close>: with
  \<open>error_out\<close> set it aborts with 404 when the page number is below 1, and when the
  page holds no items and is not page 1; without it a page number below 1 is read as 1.
\<close>

definition paginate :: "'a list \<Rightarrow> int \<Rightarrow> nat \<Rightarrow> bool \<Rightarrow> exn + 'a list" where
  "paginate rows page per_page error_out =
     (if page < 1 \<and> error_out then abort 404
      else
        let p = (if page < 1 then 1 else page);
            items = take per_page (drop (nat (p - 1) * per_page) rows)
        in if items = [] \<and> p \<noteq> 1 \<and> error_out then abort 404 else Inr items)"

text \<open>
  \<open>GET /api/v1.0/questions\<close>. The argument is the \<open>page\<close> query parameter as
  \<open>request.args.get('page', 1, type=int)\<close> reads it: \<open>None\<close> when it is absent or not
  an integer, and then the default 1 is used.
\<close>

definition get_paginated_questions :: "int option \<Rightarrow> view" where
  "get_paginated_questions page_arg s =
     (let page = (case page_arg of None \<Rightarrow> 1 | Some p \<Rightarrow> p)
      in case paginate (sort_key q_id (questions (working s))) page QUESTIONS_PER_PAGE True of
           Inl e \<Rightarrow> (Inl e, s)
         | Inr qs \<Rightarrow>
             (let cats = sort_key cat_id (categories (working s));
                  categories_dict = categories_to_dict cats
              in (Inr (Questions_body (length qs) (map Question_format qs) categories_dict), s)))"

section \<open>Category listing, deletion, creation\<close>

definition get_categories :: view where
  "get_categories s =
     (let cats = categories (working s)
      in (Inr (Categories_body (length cats) (categories_to_dict cats)), s))"

definition delete_question :: "int \<Rightarrow> view" where
  "delete_question question_id s =
     (case Question_query_get s question_id of
        None \<Rightarrow> (abort 404, s)
      | Some q \<Rightarrow> (Inr (Deleted_body question_id), Question_delete q s))"

text \<open>
  A request body: \<open>request.get_json()\<close> and \<open>request.json\<close> abort with 400 when the
  body is not well-formed JSON. The creation form is a JSON object whose keys may be
  absent; \<open>question\<close> and \<open>answer\<close> hold a string or \<open>null\<close>, \<open>category\<close> and
  \<open>difficulty\<close> an integer (the column types of section 3).
\<close>

datatype 'a json_body = Malformed | Json 'a

datatype 'a field = Absent | Null | Value 'a

record question_form =
  form_question :: "string field"
  form_answer :: "string field"
  form_category :: "int option"
  form_difficulty :: "int option"

text \<open>
  \<open>POST /api/v1.0/questions\<close>. The condition
  \<open>form['question'] == '' or form['answer'] == '' or form['question'] is None or
  form['answer'] is None\<close> is evaluated left to right and stops at the first true
  disjunct; each \<open>form[k]\<close> raises \<open>KeyError\<close> when the key is absent. The constructor
  call then reads \<open>question\<close>, \<open>answer\<close>, \<open>difficulty\<close> and \<open>category\<close>.
\<close>

definition create_question :: "question_form json_body \<Rightarrow> view" where
  "create_question req s =
     (case req of
        Malformed \<Rightarrow> (abort 400, s)
      | Json form \<Rightarrow>
          (case form_question form of
             Absent \<Rightarrow> (Inl (KeyError ''question''), s)
           | Null \<Rightarrow>
               (case form_answer form of
                  Absent \<Rightarrow> (Inl (KeyError ''answer''), s)
                | Null \<Rightarrow> (abort 422, s)
                | Value an \<Rightarrow> (abort 422, s))
           | Value qu \<Rightarrow>
               if qu = [] then (abort 422, s)
               else
                 (case form_answer form of
                    Absent \<Rightarrow> (Inl (KeyError ''answer''), s)
                  | Null \<Rightarrow> (abort 422, s)
                  | Value an \<Rightarrow>
                      if an = [] then (abort 422, s)
                      else
                        (case form_category form of
                           None \<Rightarrow> (Inl (KeyError ''category''), s)
                         | Some ca \<Rightarrow>
                             if Category_query_get s ca = None then (abort 422, s)
                             else
                               (case form_difficulty form of
                                  None \<Rightarrow> (Inl (KeyError ''difficulty''), s)
                                | Some di \<Rightarrow>
                                    (Inr Created_body, Question_insert qu an di ca s))))))"

section \<open>Search\<close>

text \<open>
  The SQL operator \<open>ILIKE\<close> of the database (PostgreSQL in the test configuration):
  in a pattern \<open>%\<close> matches any run of characters, \<open>_\<close> any one character, a
  backslash makes the next pattern character literal, and every other character
  matches itself; \<open>ILIKE\<close> compares without regard to letter case. Characters are
  8-bit; case folding covers the ASCII letters.
\<close>

definition lower :: "char \<Rightarrow> char" where
  "lower c =
     (case map_of (zip ''ABCDEFGHIJKLMNOPQRSTUVWXYZ'' ''abcdefghijklmnopqrstuvwxyz'') c of
        None \<Rightarrow> c
      | Some l \<Rightarrow> l)"

fun like_match :: "string \<Rightarrow> string \<Rightarrow> bool" where
  "like_match [] s = (s = [])"
| "like_match (p # ps) s =
     (if p = CHR ''%'' then
        (like_match ps s \<or> (case s of [] \<Rightarrow> False | c # t \<Rightarrow> like_match (p # ps) t))
      else if p = CHR ''_'' then
        (case s of [] \<Rightarrow> False | c # t \<Rightarrow> like_match ps t)
      else if p = CHR 0x5C then
        (case ps of
           [] \<Rightarrow> False
         | e # ps' \<Rightarrow> (case s of [] \<Rightarrow> False | c # t \<Rightarrow> c = e \<and> like_match ps' t))
      else
        (case s of [] \<Rightarrow> False | c # t \<Rightarrow> c = p \<and> like_match ps t))"

definition ilike :: "string \<Rightarrow> string \<Rightarrow> bool" where
  "ilike column pattern = like_match (map lower pattern) (map lower column)"

text \<open>
  \<open>POST /api/v1.0/questions/search\<close>. The argument is the \<open>search_term\<close> query
  parameter, \<open>None\<close> when absent (the default is the empty string). The term is put
  between two \<open>%\<close> as it is.
\<close>

definition search_question :: "string option \<Rightarrow> view" where
  "search_question term_arg s =
     (let search_term = (case term_arg of None \<Rightarrow> [] | Some t \<Rightarrow> t);
          qs = filter (\<lambda>q. ilike (q_question q) (''%'' @ search_term @ ''%''))
                 (questions (working s))
      in (Inr (Search_body (length qs) (map Question_format qs)), s))"

text \<open>
  The specification's reading of the search: the term occurs in the text as a
  contiguous substring, letter case ignored.
\<close>

definition contains_ignoring_case :: "string \<Rightarrow> string \<Rightarrow> bool" where
  "contains_ignoring_case search_term text = sublist (map lower search_term) (map lower text)"

section \<open>Questions by category, quiz\<close>

definition get_questions_by_category :: "int \<Rightarrow> view" where
  "get_questions_by_category category_id s =
     (case Category_query_get s category_id of
        None \<Rightarrow> (abort 404, s)
      | Some cat \<Rightarrow>
          (let qs = map Question_format
                      (filter (\<lambda>q. q_category q = category_id) (questions (working s)))
           in (Inr (By_category_body (length qs) qs (cat_type cat)), s)))"

text \<open>
  The quiz form: \<open>data['quiz_category']['id']\<close> (\<open>None\<close> when a key on the way is
  absent) and \<open>data['previous_questions']\<close>. \<open>order_by(func.random())\<close> puts the
  candidates in an order the database draws; the draw is the argument \<open>rnd\<close>, and every
  candidate comes first for some draw. \<open>limit(1)\<close> keeps the first row.
\<close>

record quiz_form =
  form_quiz_category_id :: "int option"
  form_previous_questions :: "int list option"

definition order_by_random :: "nat \<Rightarrow> 'a list \<Rightarrow> 'a list" where
  "order_by_random rnd rows = rotate rnd rows"

definition play_quiz :: "quiz_form json_body \<Rightarrow> nat \<Rightarrow> view" where
  "play_quiz req rnd s =
     (case req of
        Malformed \<Rightarrow> (abort 400, s)
      | Json data \<Rightarrow>
          (case form_quiz_category_id data of
             None \<Rightarrow> (Inl (KeyError ''quiz_category''), s)
           | Some category_id \<Rightarrow>
               (case form_previous_questions data of
                  None \<Rightarrow> (Inl (KeyError ''previous_questions''), s)
                | Some previous \<Rightarrow>
                    (let rows = questions (working s);
                         question =
                           (if category_id > 0 then
                              take 1 (order_by_random rnd
                                (filter (\<lambda>q. q_category q = category_id \<and> q_id q \<notin> set previous) rows))
                            else
                              take 1 (order_by_random rnd
                                (filter (\<lambda>q. q_id q \<notin> set previous) rows)));
                         question_res =
                           (case question of [] \<Rightarrow> None | q # rest \<Rightarrow> Some (Question_format q))
                     in (Inr (Quiz_body question_res), s)))))"

section \<open>The application\<close>

datatype request =
    GET_categories
  | GET_questions "int option"
  | DELETE_question int
  | POST_questions "question_form json_body"
  | POST_questions_search "string option"
  | GET_category_questions int
  | POST_quizzes "quiz_form json_body" nat

fun route :: "request \<Rightarrow> view" where
  "route GET_categories = handle_exceptions get_categories"
| "route (GET_questions page) = handle_exceptions (get_paginated_questions page)"
| "route (DELETE_question question_id) = handle_exceptions (delete_question question_id)"
| "route (POST_questions req) = handle_exceptions (create_question req)"
| "route (POST_questions_search search_term) = handle_exceptions (search_question search_term)"
| "route (GET_category_questions category_id) =
     handle_exceptions (get_questions_by_category category_id)"
| "route (POST_quizzes req rnd) = handle_exceptions (play_quiz req rnd)"

text \<open>
  One request against a store: a session is opened on the store, the decorated view runs,
  an exception goes to its error handler, and the committed store is what the next request
  sees.
\<close>

definition app :: "request \<Rightarrow> store \<Rightarrow> response \<times> store" where
  "app req db =
     (case route req (session_begin db) of
        (r, s') \<Rightarrow> ((case r of Inl e \<Rightarrow> errorhandler e | Inr b \<Rightarrow> jsonify b), committed s'))"

section \<open>A sample store\<close>

text \<open>
  Twelve questions, stored in descending order of id and spread over two categories,
  for evaluating the views on concrete requests.
\<close>

definition sample_question :: "int \<Rightarrow> question" where
  "sample_question i =
     \<lparr>q_id = i, q_question = ''What is abc?'', q_answer = ''xyz'',
      q_category = 1 + i mod 2, q_difficulty = 3\<rparr>"

definition sample_store :: store where
  "sample_store =
     \<lparr>questions = map sample_question [12, 11, 10, 9, 8, 7, 6, 5, 4, 3, 2, 1],
      categories = [\<lparr>cat_id = 2, cat_type = ''Art''\<rparr>, \<lparr>cat_id = 1, cat_type = ''Science''\<rparr>],
      questions_id_seq = 13\<rparr>"

definition small_store :: store where
  "small_store =
     \<lparr>questions = [sample_question 2, sample_question 1],
      categories = [\<lparr>cat_id = 2, cat_type = ''Art''\<rparr>, \<lparr>cat_id = 1, cat_type = ''Science''\<rparr>],
      questions_id_seq = 3\<rparr>"

section \<open>Sessions and the decorator\<close>

lemma committed_begin [simp]: "committed (session_begin db) = db"
  by (simp add: session_begin_def)

lemma working_begin [simp]: "working (session_begin db) = db"
  by (simp add: session_begin_def)

lemma session_rollback_begin [simp]: "session_rollback (session_begin db) = session_begin db"
  by (simp add: session_rollback_def session_begin_def)

section \<open>Paginated listing\<close>

lemma paginate_in_range:
  assumes "1 \<le> page" and "page = 1 \<or> nat (page - 1) * n < length rows" and "0 < n"
  shows "paginate rows page n e = Inr (take n (drop (nat (page - 1) * n) rows))"
  using assms by (auto simp: paginate_def Let_def)

lemma paginate_out_of_range:
  assumes "1 < page" and "length rows \<le> nat (page - 1) * n"
  shows "paginate rows page n True = abort 404"
  using assms by (simp add: paginate_def Let_def)

text \<open>
  C7: for a page in range (page 1, or a later page that starts before the end of the
  table) the listing answers 200 with the slice of ten questions of that page, taken from
  the questions in ascending order of id, and \<open>total_questions\<close> is the length of that
  slice, not the number of questions in the table.
\<close>

theorem get_paginated_questions_in_range:
  assumes "page = (case page_arg of None \<Rightarrow> 1 | Some p \<Rightarrow> p)"
    and "1 \<le> page"
    and "page = 1 \<or> nat (page - 1) * 10 < length (questions db)"
    and "items = take 10 (drop (nat (page - 1) * 10) (sort_key q_id (questions db)))"
  shows "app (GET_questions page_arg) db =
           (\<lparr>status = 200,
             body = Questions_body (length items) (map Question_format items)
                      (categories_to_dict (sort_key cat_id (categories db)))\<rparr>, db)
         \<and> sorted (map q_id items)
         \<and> length items = min 10 (length (questions db) - nat (page - 1) * 10)"
proof -
  let ?rows = "sort_key q_id (questions db)"
  have "paginate ?rows page QUESTIONS_PER_PAGE True = Inr items"
    using assms(2,3,4) by (simp add: paginate_in_range QUESTIONS_PER_PAGE_def)
  then have v: "get_paginated_questions page_arg (session_begin db) =
      (Inr (Questions_body (length items) (map Question_format items)
              (categories_to_dict (sort_key cat_id (categories db)))), session_begin db)"
    using assms(1) by (simp add: get_paginated_questions_def Let_def)
  have "app (GET_questions page_arg) db =
           (\<lparr>status = 200,
             body = Questions_body (length items) (map Question_format items)
                      (categories_to_dict (sort_key cat_id (categories db)))\<rparr>, db)"
    by (simp add: app_def handle_exceptions_def v session_close_def jsonify_def)
  moreover have "sorted (map q_id items)"
    unfolding assms(4) by (simp add: sorted_wrt_take sorted_wrt_drop flip: drop_map take_map)
  moreover have "length items = min 10 (length (questions db) - nat (page - 1) * 10)"
    unfolding assms(4) by simp
  ultimately show ?thesis by simp
qed

theorem get_paginated_questions_in_range_witness:
  "app (GET_questions (Some 2)) sample_store =
     (\<lparr>status = 200,
       body = Questions_body 2 (map Question_format [sample_question 11, sample_question 12])
                [(1, ''Science''), (2, ''Art'')]\<rparr>, sample_store)"
proof -
  have items: "take 10 (drop (nat (2 - 1) * 10) (sort_key q_id (questions sample_store))) =
      [sample_question 11, sample_question 12]"
    by (simp add: sample_store_def sample_question_def)
  have cats: "categories_to_dict (sort_key cat_id (categories sample_store)) =
      [(1, ''Science''), (2, ''Art'')]"
    by (simp add: sample_store_def categories_to_dict_def)
  have len: "length (questions sample_store) = 12"
    by (simp add: sample_store_def)
  show ?thesis
    using get_paginated_questions_in_range [of 2 "Some 2" sample_store
        "[sample_question 11, sample_question 12]"] items cats len
    by simp
qed

lemma get_paginated_questions_past_end:
  assumes "page < 1 \<or> (1 < page \<and> length (questions db) \<le> nat (page - 1) * 10)"
  shows "app (GET_questions (Some page)) db = (not_found, db)"
proof -
  have "paginate (sort_key q_id (questions db)) page QUESTIONS_PER_PAGE True = abort 404"
    using assms by (auto simp: paginate_def Let_def QUESTIONS_PER_PAGE_def)
  then have "get_paginated_questions (Some page) (session_begin db) =
      (abort 404, session_begin db)"
    by (simp add: get_paginated_questions_def abort_def)
  then show ?thesis
    by (simp add: app_def handle_exceptions_def session_close_def abort_def errorhandler_def)
qed

text \<open>
  C1: a page past the last one. The view passes \<open>error_out=True\<close> to \<open>paginate\<close>, so
  the request for page 10000 of the twelve-question store is answered 404
  "Resource Not Found", not 200 with an empty list.
\<close>

theorem get_paginated_questions_out_of_range_404:
  "app (GET_questions (Some 10000)) sample_store =
     (\<lparr>status = 404, body = Error_body 404 ''Resource Not Found''\<rparr>, sample_store)"
proof -
  have "paginate (sort_key q_id (questions sample_store)) 10000 QUESTIONS_PER_PAGE True = abort 404"
    by (rule paginate_out_of_range) (simp_all add: sample_store_def QUESTIONS_PER_PAGE_def)
  then have "get_paginated_questions (Some 10000) (session_begin sample_store) =
      (abort 404, session_begin sample_store)"
    by (simp add: get_paginated_questions_def abort_def)
  then show ?thesis
    by (simp add: app_def handle_exceptions_def session_close_def abort_def errorhandler_def
        not_found_def)
qed

section \<open>Lookup by primary key\<close>

lemma find_key_None: "find (\<lambda>r. f r = k) rows = None \<longleftrightarrow> k \<notin> f ` set rows"
  by (auto simp: find_None_iff)

lemma find_key_Some:
  assumes "distinct (map f rows)" and "r \<in> set rows"
  shows "find (\<lambda>x. f x = f r) rows = Some r"
  using assms by (induction rows) (auto simp: image_iff)

lemma find_key_SomeD:
  assumes "find (\<lambda>r. f r = k) rows = Some r"
  shows "f r = k \<and> r \<in> set rows"
  using assms by (induction rows) (auto split: if_splits)

section \<open>Questions by category\<close>

text \<open>
  C6: when no category has the id of the path the answer is 404. Otherwise, ids being the
  primary key of the category table, the answer is 200 with exactly the questions whose
  \<open>category\<close> is that id, \<open>total_questions\<close> their number and \<open>current_category\<close>
  the \<open>type\<close> of the category with that id; every returned question has that category.
\<close>

theorem get_questions_by_category_correct:
  "(category_id \<notin> cat_id ` set (categories db) \<longrightarrow>
      app (GET_category_questions category_id) db =
        (\<lparr>status = 404, body = Error_body 404 ''Resource Not Found''\<rparr>, db))
   \<and> (distinct (map cat_id (categories db)) \<and> cat \<in> set (categories db)
        \<and> cat_id cat = category_id
        \<and> qs = filter (\<lambda>q. q_category q = category_id) (questions db) \<longrightarrow>
      app (GET_category_questions category_id) db =
        (\<lparr>status = 200,
          body = By_category_body (length qs) (map Question_format qs) (cat_type cat)\<rparr>, db)
      \<and> (\<forall>fq \<in> set (map Question_format qs). j_category fq = category_id)
      \<and> set qs = {q \<in> set (questions db). q_category q = category_id})"
proof (intro conjI impI)
  assume "category_id \<notin> cat_id ` set (categories db)"
  then have "Category_query_get (session_begin db) category_id = None"
    by (simp add: Category_query_get_def find_key_None)
  then have "get_questions_by_category category_id (session_begin db) =
      (abort 404, session_begin db)"
    by (simp add: get_questions_by_category_def)
  then show "app (GET_category_questions category_id) db =
        (\<lparr>status = 404, body = Error_body 404 ''Resource Not Found''\<rparr>, db)"
    by (simp add: app_def handle_exceptions_def session_close_def abort_def
        errorhandler_def not_found_def)
next
  assume a: "distinct (map cat_id (categories db)) \<and> cat \<in> set (categories db)
        \<and> cat_id cat = category_id
        \<and> qs = filter (\<lambda>q. q_category q = category_id) (questions db)"
  then have "Category_query_get (session_begin db) category_id = Some cat"
    using find_key_Some [of cat_id "categories db" cat] by (auto simp: Category_query_get_def)
  then have "get_questions_by_category category_id (session_begin db) =
      (Inr (By_category_body (length qs) (map Question_format qs) (cat_type cat)),
       session_begin db)"
    using a by (simp add: get_questions_by_category_def)
  then show "app (GET_category_questions category_id) db =
        (\<lparr>status = 200,
          body = By_category_body (length qs) (map Question_format qs) (cat_type cat)\<rparr>, db)"
    by (simp add: app_def handle_exceptions_def session_close_def jsonify_def)
  show "\<forall>fq \<in> set (map Question_format qs). j_category fq = category_id"
    using a by (auto simp: Question_format_def)
  show "set qs = {q \<in> set (questions db). q_category q = category_id}"
    using a by auto
qed

theorem get_questions_by_category_correct_witness:
  "app (GET_category_questions 7) small_store =
     (\<lparr>status = 404, body = Error_body 404 ''Resource Not Found''\<rparr>, small_store)
   \<and> app (GET_category_questions 1) small_store =
     (\<lparr>status = 200,
       body = By_category_body 1 [Question_format (sample_question 2)] ''Science''\<rparr>,
      small_store)"
  using get_questions_by_category_correct [of 7 small_store]
    get_questions_by_category_correct [of 1 small_store "\<lparr>cat_id = 1, cat_type = ''Science''\<rparr>"
      "[sample_question 2]"]
  by (simp add: small_store_def sample_question_def)

section \<open>Deletion\<close>

text \<open>
  C4: deleting an id that no question has is answered 404 with the message
  "Resource Not Found" and the store is as before. Deleting an id that a question has is
  answered 200 with \<open>success\<close> and the id; the store afterwards is the old one without the
  rows of that id, no question has the id any more, and the same deletion is now answered
  404.
\<close>

theorem delete_question_correct:
  "(question_id \<notin> q_id ` set (questions db) \<longrightarrow>
      app (DELETE_question question_id) db =
        (\<lparr>status = 404, body = Error_body 404 ''Resource Not Found''\<rparr>, db))
   \<and> (question_id \<in> q_id ` set (questions db)
        \<and> db' = db\<lparr>questions := filter (\<lambda>r. q_id r \<noteq> question_id) (questions db)\<rparr> \<longrightarrow>
      app (DELETE_question question_id) db =
        (\<lparr>status = 200, body = Deleted_body question_id\<rparr>, db')
      \<and> success (Deleted_body question_id)
      \<and> question_id \<notin> q_id ` set (questions db')
      \<and> app (DELETE_question question_id) db' =
        (\<lparr>status = 404, body = Error_body 404 ''Resource Not Found''\<rparr>, db'))"
proof -
  have absent: "app (DELETE_question i) d =
        (\<lparr>status = 404, body = Error_body 404 ''Resource Not Found''\<rparr>, d)"
    if "i \<notin> q_id ` set (questions d)" for i d
  proof -
    have "Question_query_get (session_begin d) i = None"
      using that by (simp add: Question_query_get_def find_key_None)
    then have "delete_question i (session_begin d) = (abort 404, session_begin d)"
      by (simp add: delete_question_def)
    then show ?thesis
      by (simp add: app_def handle_exceptions_def session_close_def abort_def
          errorhandler_def not_found_def)
  qed
  have present: "app (DELETE_question question_id) db =
        (\<lparr>status = 200, body = Deleted_body question_id\<rparr>,
         db\<lparr>questions := filter (\<lambda>r. q_id r \<noteq> question_id) (questions db)\<rparr>)"
    if "question_id \<in> q_id ` set (questions db)"
  proof -
    from that obtain q where q: "Question_query_get (session_begin db) question_id = Some q"
      by (cases "Question_query_get (session_begin db) question_id")
        (auto simp: Question_query_get_def find_key_None)
    then have "q_id q = question_id"
      by (auto simp: Question_query_get_def dest: find_key_SomeD)
    then have "delete_question question_id (session_begin db) =
        (Inr (Deleted_body question_id),
         \<lparr>committed = db\<lparr>questions := filter (\<lambda>r. q_id r \<noteq> question_id) (questions db)\<rparr>,
          working = db\<lparr>questions := filter (\<lambda>r. q_id r \<noteq> question_id) (questions db)\<rparr>\<rparr>)"
      using q by (simp add: delete_question_def Question_delete_def session_commit_def
          session_begin_def Let_def)
    then show ?thesis
      by (simp add: app_def handle_exceptions_def session_close_def session_rollback_def
          jsonify_def)
  qed
  show ?thesis
  proof (intro conjI impI)
    assume "question_id \<notin> q_id ` set (questions db)"
    then show "app (DELETE_question question_id) db =
        (\<lparr>status = 404, body = Error_body 404 ''Resource Not Found''\<rparr>, db)"
      by (rule absent)
  next
    assume a: "question_id \<in> q_id ` set (questions db)
        \<and> db' = db\<lparr>questions := filter (\<lambda>r. q_id r \<noteq> question_id) (questions db)\<rparr>"
    then show "app (DELETE_question question_id) db =
        (\<lparr>status = 200, body = Deleted_body question_id\<rparr>, db')"
      using present by simp
    show "success (Deleted_body question_id)" by simp
    show gone: "question_id \<notin> q_id ` set (questions db')"
      using a by auto
    show "app (DELETE_question question_id) db' =
        (\<lparr>status = 404, body = Error_body 404 ''Resource Not Found''\<rparr>, db')"
      using gone by (rule absent)
  qed
qed

theorem delete_question_correct_witness:
  "app (DELETE_question 7) small_store =
     (\<lparr>status = 404, body = Error_body 404 ''Resource Not Found''\<rparr>, small_store)
   \<and> app (DELETE_question 2) small_store =
     (\<lparr>status = 200, body = Deleted_body 2\<rparr>, small_store\<lparr>questions := [sample_question 1]\<rparr>)
   \<and> app (DELETE_question 2) (small_store\<lparr>questions := [sample_question 1]\<rparr>) =
     (\<lparr>status = 404, body = Error_body 404 ''Resource Not Found''\<rparr>,
      small_store\<lparr>questions := [sample_question 1]\<rparr>)"
  using delete_question_correct [of 7 small_store]
    delete_question_correct [of 2 small_store "small_store\<lparr>questions := [sample_question 1]\<rparr>"]
  by (simp add: small_store_def sample_question_def)

section \<open>Quiz\<close>

lemma take1_rotate_empty: "take 1 (order_by_random rnd rows) = [] \<longleftrightarrow> rows = []"
  by (simp add: order_by_random_def)

lemma take1_rotate_member:
  assumes "take 1 (order_by_random rnd rows) = q # rest"
  shows "q \<in> set rows"
proof -
  have "q \<in> set (take 1 (order_by_random rnd rows))"
    using assms by simp
  then have "q \<in> set (order_by_random rnd rows)"
    by (rule in_set_takeD)
  then show ?thesis
    by (simp add: order_by_random_def)
qed

text \<open>
  C2: a quiz request that carries an integer category id and a list of previous ids is
  always answered 200 with \<open>success\<close>. A returned question is one of the store, its id is
  not among the previous ids and, for a positive category id, its category is that id.
  The question is null exactly when no question of the store meets these two conditions.
\<close>

theorem play_quiz_correct:
  assumes "data = \<lparr>form_quiz_category_id = Some category_id,
                    form_previous_questions = Some previous\<rparr>"
  shows "\<exists>question_res.
           app (POST_quizzes (Json data) rnd) db =
             (\<lparr>status = 200, body = Quiz_body question_res\<rparr>, db)
           \<and> success (Quiz_body question_res)
           \<and> (\<forall>fq. question_res = Some fq \<longrightarrow>
                 fq \<in> Question_format ` set (questions db)
                 \<and> j_id fq \<notin> set previous
                 \<and> (0 < category_id \<longrightarrow> j_category fq = category_id))
           \<and> (question_res = None \<longleftrightarrow>
                 (\<forall>q \<in> set (questions db).
                    q_id q \<in> set previous \<or> (0 < category_id \<and> q_category q \<noteq> category_id)))"
proof -
  define cands where "cands =
    (if category_id > 0
     then filter (\<lambda>q. q_category q = category_id \<and> q_id q \<notin> set previous) (questions db)
     else filter (\<lambda>q. q_id q \<notin> set previous) (questions db))"
  define question where "question = take 1 (order_by_random rnd cands)"
  define question_res where
    "question_res = (case question of [] \<Rightarrow> None | q # rest \<Rightarrow> Some (Question_format q))"
  have cands_set: "set cands =
      {q \<in> set (questions db). q_id q \<notin> set previous \<and> (0 < category_id \<longrightarrow> q_category q = category_id)}"
    by (auto simp: cands_def)
  have "play_quiz (Json data) rnd (session_begin db) =
      (Inr (Quiz_body question_res), session_begin db)"
    unfolding assms question_res_def question_def cands_def
    by (simp add: play_quiz_def Let_def)
  then have resp: "app (POST_quizzes (Json data) rnd) db =
             (\<lparr>status = 200, body = Quiz_body question_res\<rparr>, db)"
    by (simp add: app_def handle_exceptions_def session_close_def jsonify_def)
  have some: "fq \<in> Question_format ` set (questions db) \<and> j_id fq \<notin> set previous
                 \<and> (0 < category_id \<longrightarrow> j_category fq = category_id)"
    if "question_res = Some fq" for fq
  proof -
    from that obtain q rest where q: "question = q # rest" and fq: "fq = Question_format q"
      by (auto simp: question_res_def split: list.splits)
    from q have "q \<in> set cands"
      unfolding question_def by (rule take1_rotate_member)
    then show ?thesis
      using fq by (auto simp: cands_set Question_format_def)
  qed
  have none: "question_res = None \<longleftrightarrow>
                 (\<forall>q \<in> set (questions db).
                    q_id q \<in> set previous \<or> (0 < category_id \<and> q_category q \<noteq> category_id))"
  proof -
    have "question_res = None \<longleftrightarrow> question = []"
      by (simp add: question_res_def split: list.splits)
    also have "\<dots> \<longleftrightarrow> cands = []"
      unfolding question_def by (rule take1_rotate_empty)
    also have "\<dots> \<longleftrightarrow> set cands = {}"
      by simp
    also have "\<dots> \<longleftrightarrow> (\<forall>q \<in> set (questions db).
                    q_id q \<in> set previous \<or> (0 < category_id \<and> q_category q \<noteq> category_id))"
      unfolding cands_set by auto
    finally show ?thesis .
  qed
  show ?thesis
    using resp some none by (intro exI [of _ question_res]) simp
qed

theorem play_quiz_correct_witness:
  "app (POST_quizzes (Json \<lparr>form_quiz_category_id = Some 1,
                             form_previous_questions = Some [4, 1]\<rparr>) 5) small_store =
     (\<lparr>status = 200, body = Quiz_body (Some (Question_format (sample_question 2)))\<rparr>,
      small_store)
   \<and> app (POST_quizzes (Json \<lparr>form_quiz_category_id = Some 1,
                               form_previous_questions = Some [2]\<rparr>) 5) small_store =
     (\<lparr>status = 200, body = Quiz_body None\<rparr>, small_store)"
proof
  obtain r where
    resp: "app (POST_quizzes (Json \<lparr>form_quiz_category_id = Some 1,
             form_previous_questions = Some [4, 1]\<rparr>) 5) small_store =
           (\<lparr>status = 200, body = Quiz_body r\<rparr>, small_store)"
    and some: "\<forall>fq. r = Some fq \<longrightarrow>
                 fq \<in> Question_format ` set (questions small_store)
                 \<and> j_id fq \<notin> set [4, 1]
                 \<and> (0 < (1::int) \<longrightarrow> j_category fq = 1)"
    and none: "r = None \<longleftrightarrow>
                 (\<forall>q \<in> set (questions small_store).
                    q_id q \<in> set [4, 1] \<or> (0 < (1::int) \<and> q_category q \<noteq> 1))"
    using play_quiz_correct [OF refl, of 1 "[4, 1]" 5 small_store] by blast
  have "r \<noteq> None"
    unfolding none by (simp add: small_store_def sample_question_def)
  then obtain fq where fq: "r = Some fq"
    by auto
  with some have "fq \<in> Question_format ` set (questions small_store)" and "j_id fq \<notin> set [4, 1]"
    by simp_all
  then have "fq = Question_format (sample_question 2)"
    by (auto simp: small_store_def sample_question_def Question_format_def)
  with resp fq show "app (POST_quizzes (Json \<lparr>form_quiz_category_id = Some 1,
                             form_previous_questions = Some [4, 1]\<rparr>) 5) small_store =
     (\<lparr>status = 200, body = Quiz_body (Some (Question_format (sample_question 2)))\<rparr>,
      small_store)"
    by simp
next
  obtain r where
    resp: "app (POST_quizzes (Json \<lparr>form_quiz_category_id = Some 1,
             form_previous_questions = Some [2]\<rparr>) 5) small_store =
           (\<lparr>status = 200, body = Quiz_body r\<rparr>, small_store)"
    and none: "r = None \<longleftrightarrow>
                 (\<forall>q \<in> set (questions small_store).
                    q_id q \<in> set [2] \<or> (0 < (1::int) \<and> q_category q \<noteq> 1))"
    using play_quiz_correct [OF refl, of 1 "[2]" 5 small_store] by blast
  have "r = None"
    unfolding none by (simp add: small_store_def sample_question_def)
  with resp show "app (POST_quizzes (Json \<lparr>form_quiz_category_id = Some 1,
                               form_previous_questions = Some [2]\<rparr>) 5) small_store =
     (\<lparr>status = 200, body = Quiz_body None\<rparr>, small_store)"
    by simp
qed

section \<open>Creation\<close>

lemma route_POST_questions_abort:
  assumes "create_question req (session_begin db) = (abort c, session_begin db)"
  shows "app (POST_questions req) db = (errorhandler (HTTPException c), db)"
  using assms
  by (simp add: app_def handle_exceptions_def session_close_def abort_def)

lemma route_POST_questions_KeyError:
  assumes "create_question req (session_begin db) = (Inl (KeyError k), session_begin db)"
  shows "app (POST_questions req) db = (errorhandler (HTTPException 500), db)"
  using assms
  by (simp add: app_def handle_exceptions_def session_close_def abort_def)

lemma errorhandler_422:
  "errorhandler (HTTPException 422) = \<lparr>status = 422, body = Error_body 422 ''Unprocessable''\<rparr>"
  by (simp add: errorhandler_def unprocessable_def)

lemma errorhandler_500:
  "errorhandler (HTTPException 500) =
     \<lparr>status = 500, body = Error_body 500 ''Internal Server Error''\<rparr>"
  by (simp add: errorhandler_def internal_server_error_def)

lemma Category_query_get_None:
  "Category_query_get (session_begin db) ca = None \<longleftrightarrow> ca \<notin> cat_id ` set (categories db)"
  by (simp add: Category_query_get_def find_key_None)

text \<open>
  C3: a creation request. If \<open>question\<close> and \<open>answer\<close> are there and one of them is
  null or the empty string the answer is 422; if they are there and the category is there
  but is not the id of a category the answer is 422; in both cases the store is as before.
  If the four keys are there, the two texts are not empty and the category exists, the
  answer is 200 with a body that holds the success flag only, and the store has one more
  row, at the end, with the next id of the sequence and the four values of the request.
  The check of the texts comes before the category is read: with the \<open>category\<close> key
  taken out of the body, a null or empty text is still answered 422, while two valid texts
  are answered 500, the failure of the read of the category.
\<close>

theorem create_question_correct:
  "(form_question form \<noteq> Absent \<and> form_answer form \<noteq> Absent
      \<and> (form_question form \<in> {Null, Value []} \<or> form_answer form \<in> {Null, Value []}) \<longrightarrow>
      app (POST_questions (Json form)) db =
        (\<lparr>status = 422, body = Error_body 422 ''Unprocessable''\<rparr>, db)
      \<and> app (POST_questions (Json (form\<lparr>form_category := None\<rparr>))) db =
        (\<lparr>status = 422, body = Error_body 422 ''Unprocessable''\<rparr>, db))
   \<and> (form_question form \<noteq> Absent \<and> form_answer form \<noteq> Absent
        \<and> form_category form = Some ca \<and> ca \<notin> cat_id ` set (categories db) \<longrightarrow>
      app (POST_questions (Json form)) db =
        (\<lparr>status = 422, body = Error_body 422 ''Unprocessable''\<rparr>, db))
   \<and> (form_question form = Value qu \<and> qu \<noteq> [] \<and> form_answer form = Value an \<and> an \<noteq> [] \<longrightarrow>
      app (POST_questions (Json (form\<lparr>form_category := None\<rparr>))) db =
        (\<lparr>status = 500, body = Error_body 500 ''Internal Server Error''\<rparr>, db))
   \<and> (form_question form = Value qu \<and> qu \<noteq> [] \<and> form_answer form = Value an \<and> an \<noteq> []
        \<and> form_category form = Some ca \<and> ca \<in> cat_id ` set (categories db)
        \<and> form_difficulty form = Some di \<longrightarrow>
      app (POST_questions (Json form)) db =
        (\<lparr>status = 200, body = Created_body\<rparr>,
         db\<lparr>questions := questions db @
               [\<lparr>q_id = questions_id_seq db, q_question = qu, q_answer = an,
                 q_category = ca, q_difficulty = di\<rparr>],
             questions_id_seq := questions_id_seq db + 1\<rparr>)
      \<and> success Created_body)"
proof (intro conjI impI)
  assume a: "form_question form \<noteq> Absent \<and> form_answer form \<noteq> Absent
      \<and> (form_question form \<in> {Null, Value []} \<or> form_answer form \<in> {Null, Value []})"
  have "create_question (Json f) (session_begin db) = (abort 422, session_begin db)"
    if "form_question f = form_question form" and "form_answer f = form_answer form" for f
    using a that by (auto simp: create_question_def split: field.splits)
  then have r: "app (POST_questions (Json f)) db =
        (\<lparr>status = 422, body = Error_body 422 ''Unprocessable''\<rparr>, db)"
    if "form_question f = form_question form" and "form_answer f = form_answer form" for f
    using that by (simp add: route_POST_questions_abort errorhandler_422)
  show "app (POST_questions (Json form)) db =
        (\<lparr>status = 422, body = Error_body 422 ''Unprocessable''\<rparr>, db)"
    by (rule r) simp_all
  show "app (POST_questions (Json (form\<lparr>form_category := None\<rparr>))) db =
        (\<lparr>status = 422, body = Error_body 422 ''Unprocessable''\<rparr>, db)"
    by (rule r) simp_all
next
  assume a: "form_question form \<noteq> Absent \<and> form_answer form \<noteq> Absent
        \<and> form_category form = Some ca \<and> ca \<notin> cat_id ` set (categories db)"
  then have "Category_query_get (session_begin db) ca = None"
    by (simp add: Category_query_get_None)
  then have "create_question (Json form) (session_begin db) = (abort 422, session_begin db)"
    using a by (auto simp: create_question_def split: field.splits option.splits)
  then show "app (POST_questions (Json form)) db =
        (\<lparr>status = 422, body = Error_body 422 ''Unprocessable''\<rparr>, db)"
    by (simp add: route_POST_questions_abort errorhandler_422)
next
  assume a: "form_question form = Value qu \<and> qu \<noteq> [] \<and> form_answer form = Value an \<and> an \<noteq> []"
  then have "create_question (Json (form\<lparr>form_category := None\<rparr>)) (session_begin db) =
      (Inl (KeyError ''category''), session_begin db)"
    by (simp add: create_question_def)
  then show "app (POST_questions (Json (form\<lparr>form_category := None\<rparr>))) db =
        (\<lparr>status = 500, body = Error_body 500 ''Internal Server Error''\<rparr>, db)"
    by (simp add: route_POST_questions_KeyError errorhandler_500)
next
  assume a: "form_question form = Value qu \<and> qu \<noteq> [] \<and> form_answer form = Value an \<and> an \<noteq> []
        \<and> form_category form = Some ca \<and> ca \<in> cat_id ` set (categories db)
        \<and> form_difficulty form = Some di"
  then obtain c where "Category_query_get (session_begin db) ca = Some c"
    using Category_query_get_None [of db ca] by auto
  then have "create_question (Json form) (session_begin db) =
      (Inr Created_body, Question_insert qu an di ca (session_begin db))"
    using a by (simp add: create_question_def)
  then show "app (POST_questions (Json form)) db =
        (\<lparr>status = 200, body = Created_body\<rparr>,
         db\<lparr>questions := questions db @
               [\<lparr>q_id = questions_id_seq db, q_question = qu, q_answer = an,
                 q_category = ca, q_difficulty = di\<rparr>],
             questions_id_seq := questions_id_seq db + 1\<rparr>)"
    by (simp add: app_def handle_exceptions_def session_close_def session_rollback_def
        jsonify_def Question_insert_def session_commit_def Let_def)
  show "success Created_body" by simp
qed

theorem create_question_correct_witness:
  "app (POST_questions (Json \<lparr>form_question = Value '''', form_answer = Value ''a'',
          form_category = Some 1, form_difficulty = Some 4\<rparr>)) small_store =
     (\<lparr>status = 422, body = Error_body 422 ''Unprocessable''\<rparr>, small_store)
   \<and> app (POST_questions (Json \<lparr>form_question = Value '''', form_answer = Value ''a'',
          form_category = None, form_difficulty = Some 4\<rparr>)) small_store =
     (\<lparr>status = 422, body = Error_body 422 ''Unprocessable''\<rparr>, small_store)
   \<and> app (POST_questions (Json \<lparr>form_question = Value ''q'', form_answer = Value ''a'',
          form_category = None, form_difficulty = Some 4\<rparr>)) small_store =
     (\<lparr>status = 500, body = Error_body 500 ''Internal Server Error''\<rparr>, small_store)
   \<and> app (POST_questions (Json \<lparr>form_question = Value ''q'', form_answer = Value ''a'',
          form_category = Some 20, form_difficulty = Some 4\<rparr>)) small_store =
     (\<lparr>status = 422, body = Error_body 422 ''Unprocessable''\<rparr>, small_store)
   \<and> app (POST_questions (Json \<lparr>form_question = Value ''q'', form_answer = Value ''a'',
          form_category = Some 1, form_difficulty = Some 4\<rparr>)) small_store =
     (\<lparr>status = 200, body = Created_body\<rparr>,
      small_store\<lparr>questions := questions small_store @
                    [\<lparr>q_id = 3, q_question = ''q'', q_answer = ''a'',
                      q_category = 1, q_difficulty = 4\<rparr>],
                  questions_id_seq := 4\<rparr>)"
  using
    create_question_correct [where form = "\<lparr>form_question = Value '''', form_answer = Value ''a'',
          form_category = Some 1, form_difficulty = Some 4\<rparr>" and ca = 1 and di = 4
          and db = small_store and qu = "''q''" and an = "''a''"]
    create_question_correct [where form = "\<lparr>form_question = Value ''q'', form_answer = Value ''a'',
          form_category = Some 20, form_difficulty = Some 4\<rparr>" and ca = 20 and di = 4
          and db = small_store and qu = "''q''" and an = "''a''"]
    create_question_correct [where form = "\<lparr>form_question = Value ''q'', form_answer = Value ''a'',
          form_category = Some 1, form_difficulty = Some 4\<rparr>" and ca = 1 and di = 4
          and db = small_store and qu = "''q''" and an = "''a''"]
  by (simp add: small_store_def)

text \<open>
  C10, as stated, fails: a body with \<open>question\<close> the empty string and the three other
  keys missing is answered 422, since the first disjunct of the validity check is true
  before any other key is read.
\<close>

theorem create_question_missing_keys_422:
  "app (POST_questions (Json \<lparr>form_question = Value '''', form_answer = Absent,
          form_category = None, form_difficulty = None\<rparr>)) small_store =
     (\<lparr>status = 422, body = Error_body 422 ''Unprocessable''\<rparr>, small_store)"
proof -
  have "create_question (Json \<lparr>form_question = Value '''', form_answer = Absent,
          form_category = None, form_difficulty = None\<rparr>) (session_begin small_store) =
        (abort 422, session_begin small_store)"
    by (simp add: create_question_def)
  then show ?thesis
    by (simp add: route_POST_questions_abort errorhandler_422)
qed

text \<open>
  C10, amended: a creation request whose body lacks at least one of the four keys is
  answered 422 when a validity check fails before the missing key is read (\<open>question\<close>
  is the empty string; or \<open>question\<close> and \<open>answer\<close> are both there and one of them is
  null or empty; or both are there and \<open>category\<close> is there but is not the id of a
  category) and 500 "Internal Server Error" otherwise. It is never answered 400 or 200,
  and the store is as before.
\<close>

theorem create_question_missing_key:
  assumes "form_question form = Absent \<or> form_answer form = Absent
           \<or> form_category form = None \<or> form_difficulty form = None"
  shows "app (POST_questions (Json form)) db =
           (if form_question form = Value []
               \<or> (form_question form \<noteq> Absent \<and> form_answer form \<noteq> Absent
                   \<and> (form_question form = Null \<or> form_answer form = Null
                       \<or> form_answer form = Value []))
               \<or> (form_question form \<noteq> Absent \<and> form_answer form \<noteq> Absent
                   \<and> (\<exists>ca. form_category form = Some ca \<and> ca \<notin> cat_id ` set (categories db)))
            then (\<lparr>status = 422, body = Error_body 422 ''Unprocessable''\<rparr>, db)
            else (\<lparr>status = 500, body = Error_body 500 ''Internal Server Error''\<rparr>, db))"
proof -
  let ?s = "session_begin db"
  let ?early = "form_question form = Value []
               \<or> (form_question form \<noteq> Absent \<and> form_answer form \<noteq> Absent
                   \<and> (form_question form = Null \<or> form_answer form = Null
                       \<or> form_answer form = Value []))
               \<or> (form_question form \<noteq> Absent \<and> form_answer form \<noteq> Absent
                   \<and> (\<exists>ca. form_category form = Some ca \<and> ca \<notin> cat_id ` set (categories db)))"
  show ?thesis
  proof (cases ?early)
    case True
    then have "create_question (Json form) ?s = (abort 422, ?s)"
      using assms
      by (cases "form_question form"; cases "form_answer form"; cases "form_category form";
          cases "form_difficulty form")
        (auto simp: create_question_def Category_query_get_None)
    then have "app (POST_questions (Json form)) db =
        (\<lparr>status = 422, body = Error_body 422 ''Unprocessable''\<rparr>, db)"
      by (simp add: route_POST_questions_abort errorhandler_422)
    with True show ?thesis by simp
  next
    case False
    then have "\<exists>k. create_question (Json form) ?s = (Inl (KeyError k), ?s)"
      using assms
      by (cases "form_question form"; cases "form_answer form"; cases "form_category form";
          cases "form_difficulty form")
        (auto simp: create_question_def Category_query_get_None)
    then have "app (POST_questions (Json form)) db =
        (\<lparr>status = 500, body = Error_body 500 ''Internal Server Error''\<rparr>, db)"
      by (auto simp: route_POST_questions_KeyError errorhandler_500)
    with False show ?thesis by simp
  qed
qed

theorem create_question_missing_key_witness:
  "app (POST_questions (Json \<lparr>form_question = Value ''q'', form_answer = Value ''a'',
          form_category = Some 1, form_difficulty = None\<rparr>)) small_store =
     (\<lparr>status = 500, body = Error_body 500 ''Internal Server Error''\<rparr>, small_store)
   \<and> app (POST_questions (Json \<lparr>form_question = Value ''q'', form_answer = Null,
          form_category = None, form_difficulty = Some 2\<rparr>)) small_store =
     (\<lparr>status = 422, body = Error_body 422 ''Unprocessable''\<rparr>, small_store)"
  using
    create_question_missing_key [of "\<lparr>form_question = Value ''q'', form_answer = Value ''a'',
          form_category = Some 1, form_difficulty = None\<rparr>" small_store]
    create_question_missing_key [of "\<lparr>form_question = Value ''q'', form_answer = Null,
          form_category = None, form_difficulty = Some 2\<rparr>" small_store]
  by (simp add: small_store_def)

section \<open>Errors and the store\<close>

lemma handle_exceptions_no_pending:
  "working (snd (handle_exceptions f s)) = committed (snd (f s))
   \<and> committed (snd (handle_exceptions f s)) = committed (snd (f s))"
  by (cases "f s") (simp add: handle_exceptions_def session_close_def session_rollback_def)

lemma handle_exceptions_fst_Inr:
  "(\<exists>b. fst (handle_exceptions f s) = Inr b) \<longleftrightarrow> (\<exists>b. fst (f s) = Inr b)"
  by (cases "f s") (auto simp: handle_exceptions_def abort_def split: sum.splits exn.splits)

lemma view_error_keeps_session:
  "(\<exists>b. fst (route req s) = Inr b) \<or> committed (snd (route req s)) = committed s"
proof -
  have *: "(\<exists>b. fst (handle_exceptions f s) = Inr b)
           \<or> committed (snd (handle_exceptions f s)) = committed s"
    if "(\<exists>b. fst (f s) = Inr b) \<or> snd (f s) = s" for f
    using that handle_exceptions_no_pending [of f s] handle_exceptions_fst_Inr [of f s]
    by auto
  show ?thesis
  proof (cases req)
    case GET_categories
    then show ?thesis by (auto intro!: * simp: get_categories_def Let_def)
  next
    case (GET_questions page)
    then show ?thesis
      by (auto intro!: * simp: get_paginated_questions_def Let_def split: sum.splits)
  next
    case (DELETE_question i)
    then show ?thesis
      by (auto intro!: * simp: delete_question_def split: option.splits)
  next
    case (POST_questions r)
    then show ?thesis
      by (auto intro!: * simp: create_question_def abort_def
          split: json_body.splits field.splits option.splits)
  next
    case (POST_questions_search t)
    then show ?thesis by (auto intro!: * simp: search_question_def Let_def)
  next
    case (GET_category_questions i)
    then show ?thesis
      by (auto intro!: * simp: get_questions_by_category_def Let_def split: option.splits)
  next
    case (POST_quizzes r n)
    then show ?thesis
      by (auto intro!: * simp: play_quiz_def Let_def abort_def
          split: json_body.splits option.splits)
  qed
qed

lemma status_jsonify [simp]: "status (jsonify b) = 200"
  by (simp add: jsonify_def)

text \<open>
  C8: a request answered with an error status (400, 404, 422 or 500) leaves the committed
  store as it was before the request. The guard that wraps every view, whatever the view
  does, ends with a session that has no pending write: its working copy is the committed
  store, so a write that was not committed before the failure is discarded.
\<close>

theorem error_response_keeps_store:
  "(status (fst (app req db)) \<in> {400, 404, 422, 500} \<longrightarrow> snd (app req db) = db)
   \<and> working (snd (handle_exceptions f s)) = committed (snd (f s))
   \<and> committed (snd (handle_exceptions f s)) = committed (snd (f s))"
proof (intro conjI impI)
  assume err: "status (fst (app req db)) \<in> {400, 404, 422, 500}"
  obtain r s' where rs: "route req (session_begin db) = (r, s')"
    by (cases "route req (session_begin db)")
  have "\<not> (\<exists>b. r = Inr b)"
  proof
    assume "\<exists>b. r = Inr b"
    then have "status (fst (app req db)) = 200"
      using rs by (auto simp: app_def)
    with err show False by simp
  qed
  then have "committed s' = db"
    using view_error_keeps_session [of req "session_begin db"] rs by simp
  then show "snd (app req db) = db"
    using rs by (simp add: app_def)
next
  show "working (snd (handle_exceptions f s)) = committed (snd (f s))"
    by (simp add: handle_exceptions_no_pending)
  show "committed (snd (handle_exceptions f s)) = committed (snd (f s))"
    by (simp add: handle_exceptions_no_pending)
qed

theorem error_response_keeps_store_witness:
  "status (fst (app (DELETE_question 7) small_store)) = 404
   \<and> snd (app (DELETE_question 7) small_store) = small_store"
proof -
  have st: "status (fst (app (DELETE_question 7) small_store)) = 404"
    by (simp add: app_def handle_exceptions_def session_close_def delete_question_def
        Question_query_get_def small_store_def sample_question_def abort_def
        errorhandler_def not_found_def)
  with error_response_keeps_store [of "DELETE_question 7" small_store]
  show ?thesis by simp
qed

section \<open>The search pattern\<close>

lemma lower_wildcard:
  "lower c \<in> {CHR ''%'', CHR ''_'', CHR 0x5C} \<longleftrightarrow> c \<in> {CHR ''%'', CHR ''_'', CHR 0x5C}"
  by (auto simp: lower_def)

lemma like_match_percent:
  "like_match (CHR ''%'' # ps) s \<longleftrightarrow> (\<exists>t. suffix t s \<and> like_match ps t)"
proof (induction s)
  case Nil
  then show ?case by simp
next
  case (Cons c s)
  have "like_match (CHR ''%'' # ps) (c # s) \<longleftrightarrow>
      like_match ps (c # s) \<or> like_match (CHR ''%'' # ps) s"
    by simp
  also have "\<dots> \<longleftrightarrow> like_match ps (c # s) \<or> (\<exists>t. suffix t s \<and> like_match ps t)"
    using Cons.IH by simp
  also have "\<dots> \<longleftrightarrow> (\<exists>t. suffix t (c # s) \<and> like_match ps t)"
    by (auto simp: suffix_Cons)
  finally show ?case .
qed

lemma like_match_percent_only: "like_match ''%'' s"
  by (simp only: like_match_percent) (auto intro: exI [of _ "[]"])

lemma like_match_plain:
  assumes "set lit \<inter> {CHR ''%'', CHR ''_'', CHR 0x5C} = {}"
  shows "like_match (lit @ ps) s \<longleftrightarrow> (\<exists>t. s = lit @ t \<and> like_match ps t)"
  using assms
proof (induction lit arbitrary: s)
  case Nil
  then show ?case by simp
next
  case (Cons p lit)
  then have plain: "p \<noteq> CHR ''%''" "p \<noteq> CHR ''_''" "p \<noteq> CHR 0x5C"
    and rest: "set lit \<inter> {CHR ''%'', CHR ''_'', CHR 0x5C} = {}"
    by auto
  show ?case
  proof (cases s)
    case Nil
    then show ?thesis using plain by simp
  next
    case (Cons c t)
    then show ?thesis
      using plain Cons.IH [OF rest, of t] by auto
  qed
qed

lemma ilike_plain_term:
  assumes "set search_term \<inter> {CHR ''%'', CHR ''_'', CHR 0x5C} = {}"
  shows "ilike text (''%'' @ search_term @ ''%'') \<longleftrightarrow> contains_ignoring_case search_term text"
proof -
  let ?t = "map lower search_term" and ?s = "map lower text"
  have plain: "set ?t \<inter> {CHR ''%'', CHR ''_'', CHR 0x5C} = {}"
  proof -
    have "lower c \<notin> {CHR ''%'', CHR ''_'', CHR 0x5C}" if "c \<in> set search_term" for c
    proof -
      from that assms have "c \<notin> {CHR ''%'', CHR ''_'', CHR 0x5C}"
        by blast
      then show ?thesis
        using lower_wildcard [of c] by blast
    qed
    then show ?thesis
      by (simp only: set_map) blast
  qed
  have pc: "lower CHR ''%'' = CHR ''%''"
    by (simp add: lower_def)
  have "ilike text (''%'' @ search_term @ ''%'') \<longleftrightarrow> like_match (CHR ''%'' # ?t @ ''%'') ?s"
    by (simp add: ilike_def pc)
  also have "\<dots> \<longleftrightarrow> (\<exists>u. suffix u ?s \<and> like_match (?t @ ''%'') u)"
    by (rule like_match_percent)
  also have "\<dots> \<longleftrightarrow> (\<exists>u. suffix u ?s \<and> (\<exists>v. u = ?t @ v))"
    by (simp only: like_match_plain [OF plain] like_match_percent_only simp_thms)
  also have "\<dots> \<longleftrightarrow> sublist ?t ?s"
    by (auto simp: sublist_def suffix_def)
  finally show ?thesis
    by (simp add: contains_ignoring_case_def)
qed

lemma app_search:
  "app (POST_questions_search term_arg) db =
     (let search_term = (case term_arg of None \<Rightarrow> [] | Some t \<Rightarrow> t);
          qs = filter (\<lambda>q. ilike (q_question q) (''%'' @ search_term @ ''%'')) (questions db)
      in (\<lparr>status = 200, body = Search_body (length qs) (map Question_format qs)\<rparr>, db))"
  by (simp add: app_def handle_exceptions_def session_close_def search_question_def
      jsonify_def Let_def)

text \<open>
  For a term without \<open>%\<close>, \<open>_\<close> and backslash, the absent term included, the search
  returns the questions whose text contains the term, letter case ignored, and their
  number.
\<close>

lemma search_question_plain_term:
  assumes "search_term = (case term_arg of None \<Rightarrow> [] | Some t \<Rightarrow> t)"
    and "set search_term \<inter> {CHR ''%'', CHR ''_'', CHR 0x5C} = {}"
    and "qs = filter (\<lambda>q. contains_ignoring_case search_term (q_question q)) (questions db)"
  shows "app (POST_questions_search term_arg) db =
           (\<lparr>status = 200, body = Search_body (length qs) (map Question_format qs)\<rparr>, db)"
proof -
  have "ilike col (''%'' @ search_term @ ''%'') = contains_ignoring_case search_term col"
    for col
    using assms(2) by (rule ilike_plain_term)
  then show ?thesis
    unfolding app_search assms(3) Let_def assms(1) [symmetric] by simp
qed

lemma ilike_percent: "ilike text ''%%%''"
proof -
  have "like_match (CHR ''%'' # ps) s" if "like_match ps s" for ps s
    unfolding like_match_percent using that by blast
  then have "like_match ''%%%'' s" for s
    using like_match_percent_only by blast
  moreover have "map lower ''%%%'' = ''%%%''"
    by (simp add: lower_def)
  ultimately show ?thesis
    unfolding ilike_def by (simp only:)
qed

lemma ilike_underscore: "ilike text ''%_%'' \<longleftrightarrow> text \<noteq> []"
proof -
  have "like_match ''%_%'' s \<longleftrightarrow> s \<noteq> []" for s
  proof -
    have "like_match ''_%'' u \<longleftrightarrow> u \<noteq> []" for u
      using like_match_percent_only by (cases u) simp_all
    then have "like_match ''%_%'' s \<longleftrightarrow> (\<exists>u. suffix u s \<and> u \<noteq> [])"
      by (simp only: like_match_percent)
    also have "\<dots> \<longleftrightarrow> s \<noteq> []"
      by (auto intro: exI [of _ s])
    finally show ?thesis .
  qed
  moreover have "map lower ''%_%'' = ''%_%''"
    by (simp add: lower_def)
  ultimately show ?thesis
    unfolding ilike_def by (simp only: map_is_Nil_conv)
qed

text \<open>
  C9: the term goes into the pattern as it is, so its wildcards are active. The term
  \<open>%\<close> returns every question of the store and the term \<open>_\<close> every question with a
  non-empty text, although the text of the sample question, which both return, contains
  neither character.
\<close>

theorem search_question_wildcards_active:
  "app (POST_questions_search (Some ''%'')) db =
     (\<lparr>status = 200,
       body = Search_body (length (questions db)) (map Question_format (questions db))\<rparr>, db)
   \<and> app (POST_questions_search (Some ''_'')) db =
     (\<lparr>status = 200,
       body = Search_body (length (filter (\<lambda>q. q_question q \<noteq> []) (questions db)))
                (map Question_format (filter (\<lambda>q. q_question q \<noteq> []) (questions db)))\<rparr>, db)
   \<and> \<not> contains_ignoring_case ''%'' (q_question (sample_question 1))
   \<and> \<not> contains_ignoring_case ''_'' (q_question (sample_question 1))"
proof (intro conjI)
  show "app (POST_questions_search (Some ''%'')) db =
     (\<lparr>status = 200,
       body = Search_body (length (questions db)) (map Question_format (questions db))\<rparr>, db)"
    by (simp add: app_search Let_def ilike_percent)
  show "app (POST_questions_search (Some ''_'')) db =
     (\<lparr>status = 200,
       body = Search_body (length (filter (\<lambda>q. q_question q \<noteq> []) (questions db)))
                (map Question_format (filter (\<lambda>q. q_question q \<noteq> []) (questions db)))\<rparr>, db)"
    by (simp add: app_search Let_def ilike_underscore)
  show "\<not> contains_ignoring_case ''%'' (q_question (sample_question 1))"
    by (simp add: contains_ignoring_case_def sample_question_def lower_def sublist_code)
  show "\<not> contains_ignoring_case ''_'' (q_question (sample_question 1))"
    by (simp add: contains_ignoring_case_def sample_question_def lower_def sublist_code)
qed

text \<open>
  C5: the search for \<open>a_c\<close> in the store of two questions with the text
  "What is abc?" returns both, with \<open>total_questions\<close> 2, although the text does not
  contain \<open>a_c\<close>: the questions that contain the term are none.
\<close>

theorem search_question_underscore_term:
  "app (POST_questions_search (Some ''a_c'')) small_store =
     (\<lparr>status = 200,
       body = Search_body 2 [Question_format (sample_question 2),
                             Question_format (sample_question 1)]\<rparr>, small_store)
   \<and> filter (\<lambda>q. contains_ignoring_case ''a_c'' (q_question q)) (questions small_store) = []"
proof
  have "ilike (q_question (sample_question i)) ''%a_c%''" for i
    by (simp add: sample_question_def ilike_def lower_def)
  then show "app (POST_questions_search (Some ''a_c'')) small_store =
     (\<lparr>status = 200,
       body = Search_body 2 [Question_format (sample_question 2),
                             Question_format (sample_question 1)]\<rparr>, small_store)"
    by (simp add: app_search small_store_def)
  have "\<not> contains_ignoring_case ''a_c'' (q_question (sample_question i))" for i
    by (simp add: contains_ignoring_case_def sample_question_def lower_def sublist_code)
  then show "filter (\<lambda>q. contains_ignoring_case ''a_c'' (q_question q)) (questions small_store) = []"
    by (simp add: small_store_def)
qed

end
